theory Spec2Isabelle
  imports Complex_Main
begin

section \<open>Python text\<close>

text \<open>
  Source text is a Python \<open>str\<close>; it is modelled as a \<open>string\<close> whose characters are the
  code points below 256. Python's floats are modelled as reals.
\<close>

definition newline :: char where
  "newline = CHR 0x0A"

definition dquote :: char where
  "dquote = CHR 0x22"

definition squote :: char where
  "squote = CHR 0x27"

text \<open>\<open>str.isspace\<close> on one character, which is also the class \<open>\s\<close> of \<open>re\<close>.\<close>

definition whitespace :: string where
  "whitespace = [CHR 0x09, CHR 0x0A, CHR 0x0B, CHR 0x0C, CHR 0x0D, CHR 0x1C, CHR 0x1D, CHR 0x1E,
                 CHR 0x1F, CHR 0x20, CHR 0x85, CHR 0xA0]"

definition is_space :: "char \<Rightarrow> bool" where
  "is_space c = (c \<in> set whitespace)"

text \<open>\<open>s.split(sep)\<close> for a one-character separator: never the empty list.\<close>

fun split :: "char \<Rightarrow> string \<Rightarrow> string list" where
  "split sep [] = [[]]"
| "split sep (c # cs) =
     (if c = sep then [] # split sep cs
      else (case split sep cs of [] \<Rightarrow> [[c]] | l # ls \<Rightarrow> (c # l) # ls))"

definition strip :: "string \<Rightarrow> string" where
  "strip s = rev (dropWhile is_space (rev (dropWhile is_space s)))"

definition startswith :: "string \<Rightarrow> string \<Rightarrow> bool" where
  "startswith s p = (take (length p) s = p)"

text \<open>\<open>sub in s\<close>.\<close>

fun contains :: "string \<Rightarrow> string \<Rightarrow> bool" where
  "contains sub [] = (sub = [])"
| "contains sub (c # cs) = (if startswith (c # cs) sub then True else contains sub cs)"

text \<open>\<open>sep.join(xs)\<close>.\<close>

fun join :: "string \<Rightarrow> string list \<Rightarrow> string" where
  "join sep [] = []"
| "join sep [x] = x"
| "join sep (x # y # ys) = x @ sep @ join sep (y # ys)"

text \<open>\<open>enumerate(xs, n)\<close>.\<close>

fun enumerate_from :: "int \<Rightarrow> 'a list \<Rightarrow> (int \<times> 'a) list" where
  "enumerate_from n [] = []"
| "enumerate_from n (x # xs) = (n, x) # enumerate_from (n + 1) xs"

text \<open>\<open>str(n)\<close> for an integer.\<close>

fun digits :: "nat \<Rightarrow> string" where
  "digits n = (if n < 10 then [char_of (48 + n)] else digits (n div 10) @ [char_of (48 + n mod 10)])"

definition str_int :: "int \<Rightarrow> string" where
  "str_int i = (if i < 0 then CHR ''-'' # digits (nat (- i)) else digits (nat i))"

section \<open>The regular expressions of the scanner\<close>

text \<open>
  Every pattern of the source is an alternation of sequences of character classes, each
  taken once, optionally (\<open>?\<close>), any number of times (\<open>*\<close>) or at least once (\<open>+\<close>).
  \<open>re.search\<close> only asks whether some match exists, so backtracking over the
  quantifiers decides it.
\<close>

datatype quant = Once | Optional | Star | Plus

type_synonym item = "(char \<Rightarrow> bool) \<times> quant"

text \<open>Some prefix of the text matches the sequence.\<close>

fun match_items :: "item list \<Rightarrow> string \<Rightarrow> bool" where
  "match_items [] s = True"
| "match_items ((p, Once) # its) [] = False"
| "match_items ((p, Once) # its) (c # cs) = (if p c then match_items its cs else False)"
| "match_items ((p, Optional) # its) [] = match_items its []"
| "match_items ((p, Optional) # its) (c # cs) =
     (if p c then (if match_items its cs then True else match_items its (c # cs))
      else match_items its (c # cs))"
| "match_items ((p, Star) # its) [] = match_items its []"
| "match_items ((p, Star) # its) (c # cs) =
     (if p c then (if match_items ((p, Star) # its) cs then True else match_items its (c # cs))
      else match_items its (c # cs))"
| "match_items ((p, Plus) # its) [] = False"
| "match_items ((p, Plus) # its) (c # cs) =
     (if p c then match_items ((p, Star) # its) cs else False)"

text \<open>A match starts at some position of the text.\<close>

fun search_items :: "item list \<Rightarrow> string \<Rightarrow> bool" where
  "search_items its [] = match_items its []"
| "search_items its (c # cs) = (if match_items its (c # cs) then True else search_items its cs)"

definition re_search :: "item list list \<Rightarrow> string \<Rightarrow> bool" where
  "re_search alts s = list_ex (\<lambda>its. search_items its s) alts"

definition lowercase :: string where
  "lowercase = ''abcdefghijklmnopqrstuvwxyz''"

definition uppercase :: string where
  "uppercase = ''ABCDEFGHIJKLMNOPQRSTUVWXYZ''"

definition lower :: "char \<Rightarrow> char" where
  "lower c = (case map_of (zip uppercase lowercase) c of None \<Rightarrow> c | Some l \<Rightarrow> l)"

definition upper :: "char \<Rightarrow> char" where
  "upper c = (case map_of (zip lowercase uppercase) c of None \<Rightarrow> c | Some u \<Rightarrow> u)"

definition one_of :: "string \<Rightarrow> char \<Rightarrow> bool" where
  "one_of cs x = (x \<in> set cs)"

definition none_of :: "string \<Rightarrow> char \<Rightarrow> bool" where
  "none_of cs x = (x \<notin> set cs)"

text \<open>
  A literal, case-sensitive and under \<open>re.IGNORECASE\<close>, where a letter of the pattern
  matches both of its cases.
\<close>

definition lit :: "string \<Rightarrow> item list" where
  "lit s = map (\<lambda>c. ((\<lambda>x. x = c), Once)) s"

definition lit_i :: "string \<Rightarrow> item list" where
  "lit_i s = map (\<lambda>c. (one_of [lower c, upper c], Once)) s"

text \<open>The dot: any character but a newline.\<close>

definition dot :: "char \<Rightarrow> bool" where
  "dot x = (x \<noteq> newline)"

section \<open>Findings and metrics\<close>

datatype VulnerabilityLevel = CRITICAL | HIGH | MEDIUM | LOW | INFO

fun level_value :: "VulnerabilityLevel \<Rightarrow> string" where
  "level_value CRITICAL = ''critical''"
| "level_value HIGH = ''high''"
| "level_value MEDIUM = ''medium''"
| "level_value LOW = ''low''"
| "level_value INFO = ''info''"

text \<open>The members of the enumeration, in definition order.\<close>

definition all_levels :: "VulnerabilityLevel list" where
  "all_levels = [CRITICAL, HIGH, MEDIUM, LOW, INFO]"

datatype OWASPCategory =
    A01_BROKEN_ACCESS_CONTROL
  | A02_CRYPTOGRAPHIC_FAILURES
  | A03_INJECTION
  | A04_INSECURE_DESIGN
  | A05_SECURITY_MISCONFIGURATION
  | A06_VULNERABLE_COMPONENTS
  | A07_AUTH_FAILURES
  | A08_DATA_INTEGRITY_FAILURES
  | A09_LOGGING_FAILURES
  | A10_SSRF

fun category_value :: "OWASPCategory \<Rightarrow> string" where
  "category_value A01_BROKEN_ACCESS_CONTROL = ''Broken Access Control''"
| "category_value A02_CRYPTOGRAPHIC_FAILURES = ''Cryptographic Failures''"
| "category_value A03_INJECTION = ''Injection''"
| "category_value A04_INSECURE_DESIGN = ''Insecure Design''"
| "category_value A05_SECURITY_MISCONFIGURATION = ''Security Misconfiguration''"
| "category_value A06_VULNERABLE_COMPONENTS = ''Vulnerable and Outdated Components''"
| "category_value A07_AUTH_FAILURES = ''Identification and Authentication Failures''"
| "category_value A08_DATA_INTEGRITY_FAILURES = ''Software and Data Integrity Failures''"
| "category_value A09_LOGGING_FAILURES = ''Security Logging and Monitoring Failures''"
| "category_value A10_SSRF = ''Server-Side Request Forgery''"

record SecurityFinding =
  file_path :: string
  line_number :: int
  column :: int
  vulnerability_type :: string
  owasp_category :: OWASPCategory
  severity :: VulnerabilityLevel
  description :: string
  recommendation :: string
  code_snippet :: string
  cwe_id :: "string option"
  confidence :: real

record FindingDict =
  d_file_path :: string
  d_location :: string
  d_type :: string
  d_owasp :: string
  d_severity :: string
  d_description :: string
  d_recommendation :: string
  d_snippet :: string
  d_cwe :: "string option"
  d_confidence :: real

definition to_dict :: "SecurityFinding \<Rightarrow> FindingDict" where
  "to_dict f =
     \<lparr> d_file_path = file_path f,
       d_location = ''L'' @ str_int (line_number f) @ '':C'' @ str_int (column f),
       d_type = vulnerability_type f,
       d_owasp = category_value (owasp_category f),
       d_severity = level_value (severity f),
       d_description = description f,
       d_recommendation = recommendation f,
       d_snippet = code_snippet f,
       d_cwe = cwe_id f,
       d_confidence = confidence f \<rparr>"

record CodeMetrics =
  total_lines :: int
  code_lines :: int
  comment_lines :: int
  blank_lines :: int
  cyclomatic_complexity :: int
  cognitive_complexity :: int
  maintainability_index :: real
  technical_debt_hours :: real
  test_coverage :: real
  dependencies :: "string set"

text \<open>\<open>CodeMetrics()\<close>: every field at its default.\<close>

definition CodeMetrics0 :: CodeMetrics where
  "CodeMetrics0 =
     \<lparr> total_lines = 0, code_lines = 0, comment_lines = 0, blank_lines = 0,
       cyclomatic_complexity = 0, cognitive_complexity = 0, maintainability_index = 0,
       technical_debt_hours = 0, test_coverage = 0, dependencies = {} \<rparr>"

definition calculate_health_score :: "CodeMetrics \<Rightarrow> real" where
  "calculate_health_score m =
     (let scores0 = (if maintainability_index m > 0
                     then [min (maintainability_index m) 100 * 0.3] else []);
          complexity_score = max 0 (100 - of_int (cyclomatic_complexity m * 2));
          scores1 = scores0 @ [complexity_score * 0.3];
          scores2 = scores1 @ [test_coverage m * 0.25];
          debt_score = max 0 (100 - technical_debt_hours m * 5);
          scores3 = scores2 @ [debt_score * 0.15]
      in if scores3 \<noteq> [] then sum_list scores3 else 0)"

section \<open>The syntax tree\<close>

text \<open>
  The tree is the one of Python's \<open>ast\<close> module, which the scanner is handed by
  \<open>ast.parse\<close>. Each class the scanner tells apart is a constructor with the fields the
  scanner reads; every other class is \<open>Other\<close> with its child nodes in field order.
  Leaves of classes the scanner never looks at (\<open>alias\<close>, the operator of a \<open>BinOp\<close> or
  \<open>BoolOp\<close>, expression contexts) are left out.
\<close>

datatype operator =
  Add | Sub | Mult | MatMult | Div | Mod | Pow_op | LShift | RShift | BitOr | BitXor | BitAnd
  | FloorDiv

datatype const_value = ConstStr string | ConstBool bool | ConstNone | ConstOther

datatype ast =
    Module "ast list"
  | Import int "string list"
  | ImportFrom int "string option"
  | Call int int ast "ast list" "ast list"
  | Keyword "string option" ast
  | BinOp int ast operator ast
  | BoolOp "ast list"
  | JoinedStr int "ast list"
  | FormattedValue ast "ast option"
  | Name string
  | Attribute ast string
  | Constant const_value
  | If_node ast "ast list" "ast list"
  | While ast "ast list" "ast list"
  | For ast ast "ast list" "ast list"
  | ExceptHandler "ast option" "ast list"
  | Other "ast list"

text \<open>\<open>ast.iter_child_nodes\<close>: the child nodes in field order.\<close>

fun iter_child_nodes :: "ast \<Rightarrow> ast list" where
  "iter_child_nodes (Module body) = body"
| "iter_child_nodes (Import lineno names) = []"
| "iter_child_nodes (ImportFrom lineno modname) = []"
| "iter_child_nodes (Call lineno col_offset func args keywords) = func # args @ keywords"
| "iter_child_nodes (Keyword arg val) = [val]"
| "iter_child_nodes (BinOp lineno left op right) = [left, right]"
| "iter_child_nodes (BoolOp vals) = vals"
| "iter_child_nodes (JoinedStr lineno vals) = vals"
| "iter_child_nodes (FormattedValue val None) = [val]"
| "iter_child_nodes (FormattedValue val (Some format_spec)) = [val, format_spec]"
| "iter_child_nodes (Name ident) = []"
| "iter_child_nodes (Attribute val attr) = [val]"
| "iter_child_nodes (Constant c) = []"
| "iter_child_nodes (If_node test body orelse) = test # body @ orelse"
| "iter_child_nodes (While test body orelse) = test # body @ orelse"
| "iter_child_nodes (For target iter_expr body orelse) = target # iter_expr # body @ orelse"
| "iter_child_nodes (ExceptHandler None body) = body"
| "iter_child_nodes (ExceptHandler (Some exc_type) body) = exc_type # body"
| "iter_child_nodes (Other cs) = cs"

lemma size_iter_child_nodes: "c \<in> set (iter_child_nodes node) \<Longrightarrow> size c < size node"
proof (cases node)
  case (FormattedValue v f)
  assume "c \<in> set (iter_child_nodes node)"
  with FormattedValue show ?thesis by (cases f) auto
next
  case (ExceptHandler t b)
  assume "c \<in> set (iter_child_nodes node)"
  with ExceptHandler show ?thesis
    by (cases t) (auto dest: size_list_estimation' [where f = size and y = "size c"])
qed (auto dest: size_list_estimation' [where f = size and y = "size c"])

text \<open>
  \<open>ast.walk\<close>: every node of the tree. The library yields them breadth-first; the
  scanner only sums over them.
\<close>

function walk :: "ast \<Rightarrow> ast list" where
  "walk node = node # concat (map walk (iter_child_nodes node))"
  by pat_completeness auto
termination
  by (relation "measure size") (auto simp: size_iter_child_nodes)

declare walk.simps [simp del]

section \<open>ASTSecurityAnalyzer\<close>

record ASTSecurityAnalyzer =
  analyzer_file_path :: string
  source_lines :: "string list"
  findings :: "SecurityFinding list"
  imports_set :: "string set"
  function_calls :: "string \<rightharpoonup> int list"
  string_operations :: "(int \<times> string) list"

definition new_analyzer :: "string \<Rightarrow> string \<Rightarrow> ASTSecurityAnalyzer" where
  "new_analyzer path source_code =
     \<lparr> analyzer_file_path = path, source_lines = split newline source_code, findings = [],
       imports_set = {}, function_calls = Map.empty, string_operations = [] \<rparr>"

definition get_code_snippet :: "ASTSecurityAnalyzer \<Rightarrow> int \<Rightarrow> string" where
  "get_code_snippet self line_no =
     (let context = 2;
          start = max 0 (line_no - context - 1);
          stop = min (int (length (source_lines self))) (line_no + context)
      in join [newline]
           (map (\<lambda>i. (if i = line_no - 1 then ''>>> '' else ''    '') @ source_lines self ! nat i)
              [start..stop - 1]))"

definition append_finding :: "SecurityFinding \<Rightarrow> ASTSecurityAnalyzer \<Rightarrow> ASTSecurityAnalyzer" where
  "append_finding f self = self\<lparr>findings := findings self @ [f]\<rparr>"

definition get_function_name :: "ast \<Rightarrow> string option" where
  "get_function_name node =
     (case node of Name ident \<Rightarrow> Some ident | Attribute val attr \<Rightarrow> Some attr | _ \<Rightarrow> None)"

text \<open>\<open>isinstance(node, (ast.Str, ast.JoinedStr))\<close>: \<open>ast.Str\<close> is a string constant.\<close>

definition is_string_node :: "ast \<Rightarrow> bool" where
  "is_string_node node =
     (case node of Constant (ConstStr s) \<Rightarrow> True | JoinedStr lineno vals \<Rightarrow> True | _ \<Rightarrow> False)"

definition vulnerable_packages :: "(string \<times> VulnerabilityLevel \<times> string \<times> string) list" where
  "vulnerable_packages =
     [(''pickle'', HIGH, ''CWE-502'', ''Pickle can execute arbitrary code during deserialization''),
      (''yaml'', MEDIUM, ''CWE-502'', ''Use yaml.safe_load() instead of yaml.load()''),
      (''xml.etree.ElementTree'', MEDIUM, ''CWE-611'', ''Vulnerable to XXE attacks, use defusedxml''),
      (''telnetlib'', LOW, ''CWE-319'', ''Telnet transmits data in plaintext'')]"

definition check_vulnerable_import ::
  "ASTSecurityAnalyzer \<Rightarrow> string \<Rightarrow> int \<Rightarrow> ASTSecurityAnalyzer" where
  "check_vulnerable_import self modname line_no =
     (case map_of vulnerable_packages modname of
        None \<Rightarrow> self
      | Some (sev, cwe, descr) \<Rightarrow>
          append_finding
            \<lparr> file_path = analyzer_file_path self, line_number = line_no, column = 0,
              vulnerability_type = ''Vulnerable Import'',
              owasp_category = A06_VULNERABLE_COMPONENTS, severity = sev,
              description = ''Import of potentially vulnerable module: '' @ modname @ ''. '' @ descr,
              recommendation = ''Consider using a more secure alternative or ensure proper usage'',
              code_snippet = get_code_snippet self line_no, cwe_id = Some cwe,
              confidence = 0.9 \<rparr> self)"

definition dangerous_functions :: "(string \<times> VulnerabilityLevel \<times> OWASPCategory \<times> string) list" where
  "dangerous_functions =
     [(''eval'', CRITICAL, A03_INJECTION, ''CWE-95''),
      (''exec'', CRITICAL, A03_INJECTION, ''CWE-95''),
      (''compile'', HIGH, A03_INJECTION, ''CWE-94''),
      (''__import__'', HIGH, A03_INJECTION, ''CWE-470''),
      (''input'', LOW, A03_INJECTION, ''CWE-20'')]"

text \<open>The checks of a call take the fields of the \<open>Call\<close> node they read.\<close>

definition check_dangerous_function ::
  "ASTSecurityAnalyzer \<Rightarrow> string \<Rightarrow> int \<Rightarrow> int \<Rightarrow> ASTSecurityAnalyzer" where
  "check_dangerous_function self func_name lineno col_offset =
     (case map_of dangerous_functions func_name of
        None \<Rightarrow> self
      | Some (sev, owasp, cwe) \<Rightarrow>
          append_finding
            \<lparr> file_path = analyzer_file_path self, line_number = lineno, column = col_offset,
              vulnerability_type = ''Dangerous Function'', owasp_category = owasp, severity = sev,
              description = ''Use of dangerous function '' @ [squote] @ func_name @ [squote]
                 @ '' that can execute arbitrary code'',
              recommendation = ''Avoid using '' @ func_name @ ''. Find a safer alternative'',
              code_snippet = get_code_snippet self lineno, cwe_id = Some cwe,
              confidence = 1.0 \<rparr> self)"

definition check_sql_injection ::
  "ASTSecurityAnalyzer \<Rightarrow> int \<Rightarrow> int \<Rightarrow> ast list \<Rightarrow> ASTSecurityAnalyzer" where
  "check_sql_injection self lineno col_offset args =
     (case args of
        [] \<Rightarrow> self
      | first_arg # _ \<Rightarrow>
          (case first_arg of
             BinOp l left Mod right \<Rightarrow>
               append_finding
                 \<lparr> file_path = analyzer_file_path self, line_number = lineno, column = col_offset,
                   vulnerability_type = ''SQL Injection'', owasp_category = A03_INJECTION,
                   severity = CRITICAL,
                   description = ''SQL query uses string formatting which is vulnerable to injection'',
                   recommendation = ''Use parameterized queries with placeholders (?, %s, $1)'',
                   code_snippet = get_code_snippet self lineno, cwe_id = Some ''CWE-89'',
                   confidence = 0.95 \<rparr> self
           | JoinedStr l vals \<Rightarrow>
               append_finding
                 \<lparr> file_path = analyzer_file_path self, line_number = lineno, column = col_offset,
                   vulnerability_type = ''SQL Injection'', owasp_category = A03_INJECTION,
                   severity = CRITICAL,
                   description = ''SQL query uses f-string formatting which is vulnerable to injection'',
                   recommendation = ''Never use f-strings for SQL. Use parameterized queries'',
                   code_snippet = get_code_snippet self lineno, cwe_id = Some ''CWE-89'',
                   confidence = 1.0 \<rparr> self
           | _ \<Rightarrow> self))"

definition check_command_injection ::
  "ASTSecurityAnalyzer \<Rightarrow> int \<Rightarrow> int \<Rightarrow> ast list \<Rightarrow> ASTSecurityAnalyzer" where
  "check_command_injection self lineno col_offset keywords =
     fold (\<lambda>kw st.
             (case kw of
                Keyword (Some arg) (Constant (ConstBool True)) \<Rightarrow>
                  if arg = ''shell'' then
                    append_finding
                      \<lparr> file_path = analyzer_file_path st, line_number = lineno,
                        column = col_offset, vulnerability_type = ''Command Injection'',
                        owasp_category = A03_INJECTION, severity = HIGH,
                        description =
                          ''Using shell=True in subprocess is vulnerable to command injection'',
                        recommendation = ''Use shell=False and pass arguments as a list'',
                        code_snippet = get_code_snippet st lineno, cwe_id = Some ''CWE-78'',
                        confidence = 0.9 \<rparr> st
                  else st
              | _ \<Rightarrow> st))
       keywords self"

definition check_path_traversal ::
  "ASTSecurityAnalyzer \<Rightarrow> int \<Rightarrow> int \<Rightarrow> ast list \<Rightarrow> ASTSecurityAnalyzer" where
  "check_path_traversal self lineno col_offset args =
     (case args of
        Name ident # _ \<Rightarrow>
          append_finding
            \<lparr> file_path = analyzer_file_path self, line_number = lineno, column = col_offset,
              vulnerability_type = ''Path Traversal'',
              owasp_category = A01_BROKEN_ACCESS_CONTROL, severity = MEDIUM,
              description = ''File operation with potentially user-controlled path'',
              recommendation =
                ''Validate and sanitize file paths. Use os.path.join() and check against allowed directories'',
              code_snippet = get_code_snippet self lineno, cwe_id = Some ''CWE-22'',
              confidence = 0.7 \<rparr> self
      | _ \<Rightarrow> self)"

definition ssrf_finding :: "ASTSecurityAnalyzer \<Rightarrow> int \<Rightarrow> int \<Rightarrow> SecurityFinding" where
  "ssrf_finding self lineno col_offset =
     \<lparr> file_path = analyzer_file_path self, line_number = lineno, column = col_offset,
       vulnerability_type = ''SSRF'', owasp_category = A10_SSRF, severity = MEDIUM,
       description = ''HTTP request with potentially user-controlled URL'',
       recommendation =
         ''Validate URLs against an allowlist. Prevent requests to internal networks'',
       code_snippet = get_code_snippet self lineno, cwe_id = Some ''CWE-918'',
       confidence = 0.6 \<rparr>"

definition check_ssrf ::
  "ASTSecurityAnalyzer \<Rightarrow> int \<Rightarrow> int \<Rightarrow> ast list \<Rightarrow> ASTSecurityAnalyzer" where
  "check_ssrf self lineno col_offset args =
     (case args of
        Name ident # _ \<Rightarrow> append_finding (ssrf_finding self lineno col_offset) self
      | JoinedStr l vals # _ \<Rightarrow> append_finding (ssrf_finding self lineno col_offset) self
      | _ \<Rightarrow> self)"

text \<open>The argument is the \<open>value\<close> field of the \<open>FormattedValue\<close> node.\<close>

definition check_format_string_injection ::
  "ASTSecurityAnalyzer \<Rightarrow> ast \<Rightarrow> int \<Rightarrow> ASTSecurityAnalyzer" where
  "check_format_string_injection self val line_no =
     (case val of
        Name ident \<Rightarrow>
          append_finding
            \<lparr> file_path = analyzer_file_path self, line_number = line_no, column = 0,
              vulnerability_type = ''Format String Injection'', owasp_category = A03_INJECTION,
              severity = LOW,
              description = ''F-string with potentially user-controlled value'',
              recommendation = ''Ensure user input is properly validated before formatting'',
              code_snippet = get_code_snippet self line_no, cwe_id = Some ''CWE-134'',
              confidence = 0.5 \<rparr> self
      | _ \<Rightarrow> self)"

text \<open>
  Each \<open>visit_X\<close> method of the source does its own work and then calls
  \<open>self.generic_visit(node)\<close>. The definitions below are the work before that call;
  \<open>visit\<close> dispatches on the class of the node and then visits the children.
\<close>

definition visit_Import :: "ASTSecurityAnalyzer \<Rightarrow> int \<Rightarrow> string list \<Rightarrow> ASTSecurityAnalyzer" where
  "visit_Import self lineno names =
     fold (\<lambda>name st. check_vulnerable_import (st\<lparr>imports_set := insert name (imports_set st)\<rparr>)
                        name lineno)
       names self"

definition visit_ImportFrom ::
  "ASTSecurityAnalyzer \<Rightarrow> int \<Rightarrow> string option \<Rightarrow> ASTSecurityAnalyzer" where
  "visit_ImportFrom self lineno modname =
     (case modname of
        None \<Rightarrow> self
      | Some m \<Rightarrow>
          if m = [] then self
          else check_vulnerable_import (self\<lparr>imports_set := insert m (imports_set self)\<rparr>) m lineno)"

definition visit_Call ::
  "ASTSecurityAnalyzer \<Rightarrow> int \<Rightarrow> int \<Rightarrow> ast \<Rightarrow> ast list \<Rightarrow> ast list \<Rightarrow> ASTSecurityAnalyzer" where
  "visit_Call self lineno col_offset func args keywords =
     (case get_function_name func of
        None \<Rightarrow> self
      | Some func_name \<Rightarrow>
          if func_name = [] then self
          else
            (let s1 = self\<lparr>function_calls := (function_calls self)
                         (func_name \<mapsto>
                            (case function_calls self func_name of None \<Rightarrow> [] | Some l \<Rightarrow> l)
                            @ [lineno])\<rparr>;
                 s2 = check_dangerous_function s1 func_name lineno col_offset;
                 s3 = (if func_name \<in> set [''execute'', ''executemany'', ''raw'', ''query'']
                       then check_sql_injection s2 lineno col_offset args else s2);
                 s4 = (if func_name \<in> set [''system'', ''popen'', ''call'', ''run'', ''exec'', ''eval'']
                       then check_command_injection s3 lineno col_offset keywords else s3);
                 s5 = (if func_name \<in> set [''open'', ''read'', ''write'', ''readfile'', ''writefile'']
                       then check_path_traversal s4 lineno col_offset args else s4)
             in if func_name \<in> set [''get'', ''post'', ''put'', ''delete'', ''request'', ''urlopen'']
                then check_ssrf s5 lineno col_offset args else s5))"

definition visit_BinOp ::
  "ASTSecurityAnalyzer \<Rightarrow> int \<Rightarrow> ast \<Rightarrow> operator \<Rightarrow> ast \<Rightarrow> ASTSecurityAnalyzer" where
  "visit_BinOp self lineno left op right =
     (if op = Add \<and> (is_string_node left \<or> is_string_node right)
      then self\<lparr>string_operations := string_operations self @ [(lineno, ''concatenation'')]\<rparr>
      else self)"

definition visit_JoinedStr :: "ASTSecurityAnalyzer \<Rightarrow> int \<Rightarrow> ast list \<Rightarrow> ASTSecurityAnalyzer" where
  "visit_JoinedStr self lineno vals =
     fold (\<lambda>v st. (case v of
                      FormattedValue val format_spec \<Rightarrow> check_format_string_injection st val lineno
                    | _ \<Rightarrow> st))
       vals (self\<lparr>string_operations := string_operations self @ [(lineno, ''f-string'')]\<rparr>)"

definition visit_method :: "ast \<Rightarrow> ASTSecurityAnalyzer \<Rightarrow> ASTSecurityAnalyzer" where
  "visit_method node self =
     (case node of
        Import lineno names \<Rightarrow> visit_Import self lineno names
      | ImportFrom lineno modname \<Rightarrow> visit_ImportFrom self lineno modname
      | Call lineno col_offset func args keywords \<Rightarrow>
          visit_Call self lineno col_offset func args keywords
      | BinOp lineno left op right \<Rightarrow> visit_BinOp self lineno left op right
      | JoinedStr lineno vals \<Rightarrow> visit_JoinedStr self lineno vals
      | _ \<Rightarrow> self)"

function visit :: "ast \<Rightarrow> ASTSecurityAnalyzer \<Rightarrow> ASTSecurityAnalyzer" where
  "visit node self = fold visit (iter_child_nodes node) (visit_method node self)"
  by pat_completeness auto
termination
  by (relation "measure (\<lambda>(node, self). size node)") (auto simp: size_iter_child_nodes)

declare visit.simps [simp del]

section \<open>CodeGuardian: the checks on the raw text\<close>

definition quote_class :: "char \<Rightarrow> bool" where
  "quote_class = one_of [dquote, squote]"

text \<open>The common tail \<^verbatim>\<open>["\']?\s*[:=]\s*["\'][^"\']+["\']\<close> of the secret patterns.\<close>

definition secret_tail :: "item list" where
  "secret_tail =
     [(quote_class, Optional), (is_space, Star), (one_of '':='', Once), (is_space, Star),
      (quote_class, Once), (none_of [dquote, squote], Plus), (quote_class, Once)]"

definition secret_patterns :: "(item list list \<times> string) list" where
  "secret_patterns =
     [([[(quote_class, Optional)] @ lit_i ''api'' @ [(one_of ''_-'', Optional)] @ lit_i ''key''
          @ secret_tail], ''API Key''),
      ([[(quote_class, Optional)] @ lit_i ''secret'' @ [(one_of ''_-'', Optional)] @ lit_i ''key''
          @ secret_tail], ''Secret Key''),
      ([[(quote_class, Optional)] @ lit_i ''password'' @ secret_tail], ''Hardcoded Password''),
      ([[(quote_class, Optional)] @ lit_i ''token'' @ secret_tail], ''Access Token''),
      ([[(quote_class, Optional)] @ lit_i ''aws'' @ [(one_of ''_-'', Optional)] @ lit_i ''access''
          @ [(one_of ''_-'', Optional)] @ lit_i ''key'' @ secret_tail], ''AWS Credentials'')]"

definition secret_finding :: "string \<Rightarrow> int \<Rightarrow> string \<Rightarrow> string \<Rightarrow> SecurityFinding" where
  "secret_finding path line_no line secret_type =
     \<lparr> file_path = path, line_number = line_no, column = 0,
       vulnerability_type = ''Hardcoded Secret'', owasp_category = A02_CRYPTOGRAPHIC_FAILURES,
       severity = HIGH,
       description = ''Potential hardcoded '' @ secret_type @ '' detected'',
       recommendation = ''Use environment variables or secure key management'',
       code_snippet = take 50 (strip line) @ ''...'', cwe_id = Some ''CWE-798'',
       confidence = 0.8 \<rparr>"

definition check_hardcoded_secrets :: "string \<Rightarrow> string \<Rightarrow> SecurityFinding list" where
  "check_hardcoded_secrets source_code path =
     concat (map (\<lambda>(line_no, line).
                    concat (map (\<lambda>(pattern, secret_type).
                                   if re_search pattern line
                                   then [secret_finding path line_no line secret_type] else [])
                              secret_patterns))
               (enumerate_from 1 (split newline source_code)))"

definition weak_crypto :: "(string \<times> string) list" where
  "weak_crypto = [(''MD5'', ''CWE-327''), (''SHA1'', ''CWE-327''), (''DES'', ''CWE-327''),
                  (''RC4'', ''CWE-327'')]"

definition crypto_finding :: "string \<Rightarrow> int \<Rightarrow> string \<Rightarrow> string \<Rightarrow> string \<Rightarrow> SecurityFinding" where
  "crypto_finding path line_no line algo cwe =
     \<lparr> file_path = path, line_number = line_no, column = 0,
       vulnerability_type = ''Weak Cryptography'', owasp_category = A02_CRYPTOGRAPHIC_FAILURES,
       severity = MEDIUM,
       description = ''Use of weak cryptographic algorithm: '' @ algo,
       recommendation = ''Use stronger algorithms (SHA-256, AES, etc.)'',
       code_snippet = strip line, cwe_id = Some cwe, confidence = 0.9 \<rparr>"

text \<open>For each algorithm the inner loop stops at the first line that holds its name.\<close>

definition check_weak_crypto :: "string \<Rightarrow> string \<Rightarrow> SecurityFinding list" where
  "check_weak_crypto source_code path =
     concat (map (\<lambda>(algo, cwe).
                    if contains algo source_code then
                      (case find (\<lambda>(line_no, line). contains algo line)
                              (enumerate_from 1 (split newline source_code)) of
                         None \<Rightarrow> []
                       | Some (line_no, line) \<Rightarrow> [crypto_finding path line_no line algo cwe])
                    else [])
               weak_crypto)"

definition log_patterns :: "item list list list" where
  "log_patterns =
     [[lit_i ''log'' @ [(dot, Star)] @ lit_i ''password''],
      [lit_i ''print'' @ [(dot, Star)] @ lit_i ''password''],
      [lit_i ''console.log'' @ [(dot, Star)] @ lit_i ''password''],
      [lit_i ''logger'' @ [(dot, Star)] @ lit_i ''credit'' @ [(one_of ''_-'', Optional)]
         @ lit_i ''card''],
      [lit_i ''log'' @ [(dot, Star)] @ lit_i ''ssn'']]"

definition logging_finding :: "string \<Rightarrow> int \<Rightarrow> string \<Rightarrow> SecurityFinding" where
  "logging_finding path line_no line =
     \<lparr> file_path = path, line_number = line_no, column = 0,
       vulnerability_type = ''Sensitive Data in Logs'', owasp_category = A09_LOGGING_FAILURES,
       severity = MEDIUM,
       description = ''Potential sensitive data exposure in logs'',
       recommendation = ''Never log passwords, tokens, or PII'',
       code_snippet = strip line, cwe_id = Some ''CWE-532'', confidence = 0.7 \<rparr>"

text \<open>The inner loop breaks at the first pattern found: at most one finding per line.\<close>

definition check_logging_issues :: "string \<Rightarrow> string \<Rightarrow> SecurityFinding list" where
  "check_logging_issues source_code path =
     concat (map (\<lambda>(line_no, line).
                    if list_ex (\<lambda>pattern. re_search pattern line) log_patterns
                    then [logging_finding path line_no line] else [])
               (enumerate_from 1 (split newline source_code)))"

section \<open>CodeGuardian: metrics and the analysis of one file\<close>

definition count_line :: "string \<Rightarrow> CodeMetrics \<Rightarrow> CodeMetrics" where
  "count_line line m =
     (let stripped = strip line in
      if stripped = [] then m\<lparr>blank_lines := blank_lines m + 1\<rparr>
      else if startswith stripped ''#'' then m\<lparr>comment_lines := comment_lines m + 1\<rparr>
      else m\<lparr>code_lines := code_lines m + 1\<rparr>)"

definition count_node :: "ast \<Rightarrow> CodeMetrics \<Rightarrow> CodeMetrics" where
  "count_node node m =
     (case node of
        If_node test body orelse \<Rightarrow> m\<lparr>cyclomatic_complexity := cyclomatic_complexity m + 1\<rparr>
      | While test body orelse \<Rightarrow> m\<lparr>cyclomatic_complexity := cyclomatic_complexity m + 1\<rparr>
      | For target iter_expr body orelse \<Rightarrow>
          m\<lparr>cyclomatic_complexity := cyclomatic_complexity m + 1\<rparr>
      | ExceptHandler exc_type body \<Rightarrow>
          m\<lparr>cyclomatic_complexity := cyclomatic_complexity m + 1\<rparr>
      | BoolOp vals \<Rightarrow>
          m\<lparr>cyclomatic_complexity := cyclomatic_complexity m + (int (length vals) - 1)\<rparr>
      | _ \<Rightarrow> m)"

definition calculate_python_metrics :: "ast \<Rightarrow> string \<Rightarrow> CodeMetrics" where
  "calculate_python_metrics tree source_code =
     (let lines = split newline source_code;
          m0 = CodeMetrics0\<lparr>total_lines := int (length lines)\<rparr>;
          m1 = fold count_line lines m0;
          m2 = fold count_node (walk tree) m1
      in if code_lines m2 > 0
         then m2\<lparr>maintainability_index :=
                   max 0 (171 - 5.2 * (of_int (cyclomatic_complexity m2)
                                         / of_int (max 1 (code_lines m2))) * 10)\<rparr>
         else m2)"

text \<open>
  The exceptions that reach the scanner. \<open>ast.parse\<close> and \<open>Path.read_text\<close> belong to
  the Python library: the parser is a parameter of the model, and reading a file gives
  what the file system holds for it.
\<close>

datatype exn = FileNotFoundError string | SyntaxError | ValueError | UnicodeDecodeError | OSError

type_synonym parser = "string \<Rightarrow> exn + ast"

definition analyze_python ::
  "parser \<Rightarrow> string \<Rightarrow> string \<Rightarrow> exn + SecurityFinding list \<times> CodeMetrics" where
  "analyze_python parse path source_code =
     (case parse source_code of
        Inl SyntaxError \<Rightarrow> Inr ([], CodeMetrics0)
      | Inl e \<Rightarrow> Inl e
      | Inr tree \<Rightarrow>
          (let analyzer = visit tree (new_analyzer path source_code);
               metrics = (calculate_python_metrics tree source_code)
                           \<lparr>dependencies := imports_set analyzer\<rparr>
           in Inr (findings analyzer
                     @ check_hardcoded_secrets source_code path
                     @ check_weak_crypto source_code path
                     @ check_logging_issues source_code path,
                   metrics)))"

definition js_patterns ::
  "(item list list \<times> string \<times> VulnerabilityLevel \<times> OWASPCategory) list" where
  "js_patterns =
     [([lit ''eval'' @ [(is_space, Star)] @ lit ''(''], ''Eval Usage'', HIGH, A03_INJECTION),
      ([lit ''innerHTML'' @ [(is_space, Star)] @ lit ''=''], ''innerHTML Usage'', MEDIUM,
       A03_INJECTION),
      ([lit ''document.write'' @ [(is_space, Star)] @ lit ''(''], ''document.write Usage'', LOW,
       A03_INJECTION),
      ([lit ''localStorage.'', lit ''sessionStorage.''], ''Client Storage'', LOW,
       A02_CRYPTOGRAPHIC_FAILURES)]"

definition js_finding ::
  "string \<Rightarrow> int \<Rightarrow> string \<Rightarrow> string \<Rightarrow> VulnerabilityLevel \<Rightarrow> OWASPCategory \<Rightarrow> SecurityFinding"
  where
  "js_finding path line_no line vuln_type sev owasp =
     \<lparr> file_path = path, line_number = line_no, column = 0, vulnerability_type = vuln_type,
       owasp_category = owasp, severity = sev,
       description = ''Potential security issue: '' @ vuln_type,
       recommendation = ''Review and ensure secure usage'',
       code_snippet = strip line, cwe_id = None, confidence = 1.0 \<rparr>"

definition analyze_javascript :: "string \<Rightarrow> string \<Rightarrow> SecurityFinding list \<times> CodeMetrics" where
  "analyze_javascript path source_code =
     (let lines = split newline source_code;
          fs = concat (map (\<lambda>(line_no, line).
                              concat (map (\<lambda>(pattern, vuln_type, sev, owasp).
                                             if re_search pattern line
                                             then [js_finding path line_no line vuln_type sev owasp]
                                             else [])
                                        js_patterns))
                         (enumerate_from 1 lines));
          metrics = CodeMetrics0
            \<lparr>total_lines := int (length lines),
             code_lines := int (length (filter (\<lambda>line. strip line \<noteq> []
                                                  \<and> \<not> startswith (strip line) ''//'') lines))\<rparr>
      in (fs, metrics))"

section \<open>Paths and the file system\<close>

text \<open>
  A directory tree. A path is the list of names that leads from the root of the tree to
  an entry. A regular file holds what \<open>read_text\<close> gives for it: its text, or the
  exception raised on reading it. \<open>pathlib\<close> is the Python library's; the functions
  below follow its documented behaviour on a POSIX system.
\<close>

datatype fsnode = File string "exn + string" | Dir string "fsnode list"

type_synonym path = "string list"

fun name_of :: "fsnode \<Rightarrow> string" where
  "name_of (File n c) = n"
| "name_of (Dir n es) = n"

fun entries :: "fsnode \<Rightarrow> fsnode list" where
  "entries (File n c) = []"
| "entries (Dir n es) = es"

fun lookup :: "fsnode \<Rightarrow> path \<Rightarrow> fsnode option" where
  "lookup node [] = Some node"
| "lookup node (c # cs) =
     (case find (\<lambda>e. name_of e = c) (entries node) of
        None \<Rightarrow> None
      | Some e \<Rightarrow> lookup e cs)"

definition exists_path :: "fsnode \<Rightarrow> path \<Rightarrow> bool" where
  "exists_path fsys p = (lookup fsys p \<noteq> None)"

definition is_file :: "fsnode \<Rightarrow> path \<Rightarrow> bool" where
  "is_file fsys p = (case lookup fsys p of Some (File n c) \<Rightarrow> True | _ \<Rightarrow> False)"

definition read_text :: "fsnode \<Rightarrow> path \<Rightarrow> exn + string" where
  "read_text fsys p =
     (case lookup fsys p of
        None \<Rightarrow> Inl (FileNotFoundError (join ''/'' p))
      | Some (Dir n es) \<Rightarrow> Inl OSError
      | Some (File n c) \<Rightarrow> c)"

definition str_path :: "path \<Rightarrow> string" where
  "str_path p = join ''/'' p"

text \<open>
  \<open>Path.suffix\<close>: the part of the last name from its last dot on, when that dot is
  neither the first nor the last character of the name.
\<close>

definition suffix_of_name :: "string \<Rightarrow> string" where
  "suffix_of_name name =
     (if CHR ''.'' \<notin> set name then []
      else (let ext = rev (takeWhile (\<lambda>c. c \<noteq> CHR ''.'') (rev name));
                i = length name - length ext - 1
            in if 0 < i \<and> ext \<noteq> [] then CHR ''.'' # ext else []))"

definition suffix :: "path \<Rightarrow> string" where
  "suffix p = (if p = [] then [] else suffix_of_name (last p))"

text \<open>One name against one pattern component, where \<open>*\<close> stands for any run of characters.\<close>

fun fnmatch :: "string \<Rightarrow> string \<Rightarrow> bool" where
  "fnmatch [] [] = True"
| "fnmatch [] (c # cs) = False"
| "fnmatch (p # ps) [] = (p = CHR ''*'' \<and> fnmatch ps [])"
| "fnmatch (p # ps) (c # cs) =
     (if p = CHR ''*'' then (if fnmatch ps (c # cs) then True else fnmatch (p # ps) cs)
      else if p = c then fnmatch ps cs else False)"

text \<open>The component \<open>**\<close>: the directory itself and every directory below it.\<close>

fun recursive_dirs :: "path \<Rightarrow> fsnode \<Rightarrow> (path \<times> fsnode) list" where
  "recursive_dirs p (File n c) = []"
| "recursive_dirs p (Dir n es) =
     (p, Dir n es) # concat (map (\<lambda>e. recursive_dirs (p @ [name_of e]) e) es)"

fun glob_parts :: "string list \<Rightarrow> path \<times> fsnode \<Rightarrow> path list" where
  "glob_parts [] (p, node) = [p]"
| "glob_parts (part # parts) (p, node) =
     (if part = ''**'' then concat (map (glob_parts parts) (recursive_dirs p node))
      else concat (map (glob_parts parts)
                     (map (\<lambda>e. (p @ [name_of e], e))
                        (filter (\<lambda>e. fnmatch part (name_of e)) (entries node)))))"

text \<open>\<open>directory.glob(pattern)\<close>.\<close>

definition glob :: "fsnode \<Rightarrow> path \<Rightarrow> string \<Rightarrow> path list" where
  "glob fsys directory pattern =
     (case lookup fsys directory of
        None \<Rightarrow> []
      | Some node \<Rightarrow> glob_parts (split (CHR ''/'') pattern) (directory, node))"

section \<open>CodeGuardian: scanning a file and a directory\<close>

record MetricsDict =
  m_total_lines :: int
  m_code_lines :: int
  m_dependencies :: "string set"
  m_health_score :: real

record ScanResult =
  timestamp :: string
  directory :: string
  files_scanned :: int
  total_findings :: int
  severity_distribution :: "(string \<times> int) list"
  owasp_distribution :: "(string \<times> int) list"
  result_findings :: "FindingDict list"
  metrics :: MetricsDict
  power_consumed :: real

record CodeGuardian =
  scan_history :: "ScanResult list"
  vulnerability_database :: "string \<rightharpoonup> SecurityFinding list"
  metrics_cache :: "string \<rightharpoonup> CodeMetrics"
  power_cost :: real
  consciousness_sync :: bool

definition new_guardian :: CodeGuardian where
  "new_guardian =
     \<lparr> scan_history = [], vulnerability_database = Map.empty, metrics_cache = Map.empty,
       power_cost = 0.008, consciousness_sync = True \<rparr>"

definition scan_file ::
  "parser \<Rightarrow> fsnode \<Rightarrow> CodeGuardian \<Rightarrow> path
     \<Rightarrow> exn + (SecurityFinding list \<times> CodeMetrics) \<times> CodeGuardian" where
  "scan_file parse fsys self p =
     (if \<not> exists_path fsys p then Inl (FileNotFoundError (''File not found: '' @ str_path p))
      else if suffix p \<notin> set [''.py'', ''.js'', ''.ts'', ''.jsx'', ''.tsx'']
      then Inr (([], CodeMetrics0), self)
      else
        (case read_text fsys p of
           Inl e \<Rightarrow> Inl e
         | Inr source_code \<Rightarrow>
             (case (if suffix p = ''.py'' then analyze_python parse (str_path p) source_code
                    else Inr (analyze_javascript (str_path p) source_code)) of
                Inl e \<Rightarrow> Inl e
              | Inr (fs, ms) \<Rightarrow>
                  Inr ((fs, ms),
                       self\<lparr>vulnerability_database :=
                              (vulnerability_database self)(str_path p \<mapsto> fs),
                            metrics_cache := (metrics_cache self)(str_path p \<mapsto> ms)\<rparr>))))"

text \<open>
  The state of the loop of \<open>scan_directory\<close>: the guardian, \<open>files_scanned\<close>,
  \<open>total_findings\<close> and \<open>aggregated_metrics\<close>. An exception of \<open>scan_file\<close> is
  logged and the file is skipped.
\<close>

type_synonym loop_state = "CodeGuardian \<times> int \<times> SecurityFinding list \<times> CodeMetrics"

definition scan_step :: "parser \<Rightarrow> fsnode \<Rightarrow> path \<Rightarrow> loop_state \<Rightarrow> loop_state" where
  "scan_step parse fsys p st =
     (case st of (self, n, found, agg) \<Rightarrow>
        if is_file fsys p then
          (case scan_file parse fsys self p of
             Inl e \<Rightarrow> st
           | Inr ((fs, ms), self') \<Rightarrow>
               (self', n + 1, found @ fs,
                agg\<lparr>total_lines := total_lines agg + total_lines ms,
                    code_lines := code_lines agg + code_lines ms,
                    comment_lines := comment_lines agg + comment_lines ms,
                    dependencies := dependencies agg \<union> dependencies ms\<rparr>))
        else st)"

text \<open>The files the two loops of \<open>scan_directory\<close> run over, in order.\<close>

definition scanned_paths :: "fsnode \<Rightarrow> path \<Rightarrow> bool \<Rightarrow> path list" where
  "scanned_paths fsys dir recursive =
     (let pattern = (if recursive then ''**/*'' else ''*'');
          patterns = [''*.py'', ''*.js'', ''*.ts'', ''*.jsx'', ''*.tsx'']
      in concat (map (\<lambda>pattern_str.
                        glob fsys dir (if recursive then pattern @ ''/'' @ pattern_str
                                       else pattern_str))
                   patterns))"

text \<open>The dictionary from category to the findings of that category, in insertion order.\<close>

fun group_add :: "string \<Rightarrow> 'a \<Rightarrow> (string \<times> 'a list) list \<Rightarrow> (string \<times> 'a list) list" where
  "group_add k v [] = [(k, [v])]"
| "group_add k v ((k', vs) # d) =
     (if k = k' then (k', vs @ [v]) # d else (k', vs) # group_add k v d)"

definition severity_dist :: "SecurityFinding list \<Rightarrow> (string \<times> int) list" where
  "severity_dist found =
     map (\<lambda>level. (level_value level, int (length (filter (\<lambda>f. severity f = level) found))))
       all_levels"

definition owasp_dist :: "SecurityFinding list \<Rightarrow> (string \<times> SecurityFinding list) list" where
  "owasp_dist found = fold (\<lambda>f d. group_add (category_value (owasp_category f)) f d) found []"

text \<open>The two nested loops over the patterns and the files each one matches.\<close>

definition scan_loop :: "parser \<Rightarrow> fsnode \<Rightarrow> CodeGuardian \<Rightarrow> path \<Rightarrow> bool \<Rightarrow> loop_state" where
  "scan_loop parse fsys self dir recursive =
     fold (scan_step parse fsys) (scanned_paths fsys dir recursive) (self, 0, [], CodeMetrics0)"

text \<open>\<open>now\<close> is \<open>datetime.now().isoformat()\<close> at the time of the scan.\<close>

definition scan_directory ::
  "parser \<Rightarrow> string \<Rightarrow> fsnode \<Rightarrow> CodeGuardian \<Rightarrow> path \<Rightarrow> bool \<Rightarrow> exn + ScanResult \<times> CodeGuardian"
  where
  "scan_directory parse now fsys self dir recursive =
     (if \<not> exists_path fsys dir
      then Inl (FileNotFoundError (''Directory not found: '' @ str_path dir))
      else
        (case scan_loop parse fsys self dir recursive of
           (self', n, found, agg) \<Rightarrow>
             (let scan_result =
                    \<lparr> timestamp = now,
                      directory = str_path dir,
                      files_scanned = n,
                      total_findings = int (length found),
                      severity_distribution = severity_dist found,
                      owasp_distribution = map (\<lambda>(k, v). (k, int (length v))) (owasp_dist found),
                      result_findings = map to_dict found,
                      metrics = \<lparr> m_total_lines = total_lines agg,
                                  m_code_lines = code_lines agg,
                                  m_dependencies = dependencies agg,
                                  m_health_score = calculate_health_score agg \<rparr>,
                      power_consumed = power_cost self' * (of_int n / 100) \<rparr>
              in Inr (scan_result, self'\<lparr>scan_history := scan_history self' @ [scan_result]\<rparr>))))"

section \<open>Notions used in the statements\<close>

text \<open>What \<open>scan_file\<close> returns for a path, apart from the guardian and its caches.\<close>

definition scan_outcome :: "parser \<Rightarrow> fsnode \<Rightarrow> path \<Rightarrow> exn + SecurityFinding list \<times> CodeMetrics" where
  "scan_outcome parse fsys p = map_sum id fst (scan_file parse fsys new_guardian p)"



section \<open>Sample inputs\<close>

text \<open>A parser that knows the sources below and rejects every other text.\<close>

definition parser_of :: "(string \<times> ast) list \<Rightarrow> parser" where
  "parser_of known s = (case map_of known s of None \<Rightarrow> Inl SyntaxError | Some tree \<Rightarrow> Inr tree)"

text \<open>
  Scenario A: an f-string assigned to \<open>query\<close>, then \<open>cursor.execute(query)\<close>, and the
  tree \<open>ast.parse\<close> gives for it (an \<open>Assign\<close> and an \<open>Expr\<close> statement).
\<close>

definition scenario_a_source :: string where
  \<open>scenario_a_source =
     ''query = f"SELECT * FROM users WHERE id = {user_id}"'' @ [newline]
     @ ''cursor.execute(query)''\<close>

definition scenario_a_tree :: ast where
  "scenario_a_tree =
     Module
       [Other [Name ''query'',
               JoinedStr 1 [Constant (ConstStr ''SELECT * FROM users WHERE id = ''),
                            FormattedValue (Name ''user_id'') None]],
        Other [Call 2 0 (Attribute (Name ''cursor'') ''execute'') [Name ''query''] []]]"

text \<open>Scenario B: a hardcoded API key.\<close>

definition scenario_b_source :: string where
  \<open>scenario_b_source = ''API_KEY = "sk-1234567890abcdef"''\<close>

text \<open>Scenario D: \<open>hashlib.md5\<close> and \<open>hashlib.sha1\<close> on two lines.\<close>

definition scenario_d_source :: string where
  "scenario_d_source =
     ''import hashlib'' @ [newline] @ ''hashlib.md5(data)'' @ [newline] @ ''hashlib.sha1(data)''"

definition scenario_d_tree :: ast where
  "scenario_d_tree =
     Module
       [Import 1 [''hashlib''],
        Other [Call 2 0 (Attribute (Name ''hashlib'') ''md5'') [Name ''data''] []],
        Other [Call 3 0 (Attribute (Name ''hashlib'') ''sha1'') [Name ''data''] []]]"

text \<open>A text that does not parse, with the API key of scenario B on its first line.\<close>

definition broken_source :: string where
  "broken_source = scenario_b_source @ [newline] @ ''def (''"

text \<open>A one-line assignment followed by an empty line, and a one-line conditional.\<close>

definition plain_source :: string where
  "plain_source = ''x = 1'' @ [newline]"

definition plain_tree :: ast where
  "plain_tree = Module [Other [Name ''x'', Constant ConstOther]]"

definition branch_source :: string where
  "branch_source = ''if x: pass''"

definition branch_tree :: ast where
  "branch_tree = Module [If_node (Name ''x'') [Other []] []]"

definition js_source :: string where
  "js_source = ''eval(x);'' @ [newline]"

definition sample_parser :: parser where
  "sample_parser = parser_of [(plain_source, plain_tree), (branch_source, branch_tree),
                              ('''', Module [])]"

text \<open>
  A directory with two files directly in it and a subdirectory \<open>pkg\<close> with a Python
  file, a JavaScript file and a Python file that does not parse.
\<close>

definition sample_fs :: fsnode where
  "sample_fs =
     Dir ''''
       [File ''file0.py'' (Inr plain_source),
        File ''notes.txt'' (Inr ''hello''),
        Dir ''pkg''
          [File ''a.py'' (Inr plain_source),
           File ''app.js'' (Inr js_source),
           File ''broken.py'' (Inr broken_source)]]"

text \<open>A directory with Python files directly in it and nothing else.\<close>

definition flat_fs :: fsnode where
  "flat_fs = Dir [] [File ''file0.py'' (Inr plain_source), File ''file1.py'' (Inr plain_source)]"

section \<open>Properties of the metrics\<close>







lemma severity_dist_sum: "sum_list (map snd (severity_dist found)) = int (length found)"
proof (induction found)
  case Nil
  show ?case by (simp add: severity_dist_def all_levels_def)
next
  case (Cons f found)
  then show ?case
    by (cases "severity f") (simp_all add: severity_dist_def all_levels_def)
qed

section \<open>Properties of the scan\<close>





lemma scan_directory_result:
  "scan_directory parse now fsys self dir recursive = Inr (r, g) \<Longrightarrow>
   scan_loop parse fsys self dir recursive = (self', n, found, agg) \<Longrightarrow>
   files_scanned r = n \<and> total_findings r = int (length found)
   \<and> severity_distribution r = severity_dist found
   \<and> result_findings r = map to_dict found
   \<and> m_total_lines (metrics r) = total_lines agg
   \<and> m_code_lines (metrics r) = code_lines agg
   \<and> m_dependencies (metrics r) = dependencies agg
   \<and> m_health_score (metrics r) = calculate_health_score agg"
  by (auto simp: scan_directory_def Let_def split: if_splits)

lemma not_isl_Inr: "\<not> isl x \<Longrightarrow> \<exists>y. x = Inr y"
  by (cases x) auto

text \<open>
  The query check looks at the syntactic shape of the first argument only: a name is never
  followed to the value assigned to it.
\<close>

lemma sql_check_ignores_names:
  "check_sql_injection self lineno col_offset (Name ident # args) = self"
  by (simp add: check_sql_injection_def)

text \<open>
  With \<open>recursive\<close> set, the pattern handed to \<open>glob\<close> is \<open>**/*/*.ext\<close>: every path it
  gives lies at least two names below the directory, so an entry of the directory itself
  is never among them.
\<close>

lemma recursive_dirs_length:
  "(q, n) \<in> set (recursive_dirs p node) \<Longrightarrow> length p \<le> length q"
proof (induction p node arbitrary: q n rule: recursive_dirs.induct)
  case (1 p n c)
  then show ?case by simp
next
  case (2 p name es)
  from "2.prems" show ?case
  proof (auto)
    fix e assume e: "e \<in> set es" and m: "(q, n) \<in> set (recursive_dirs (p @ [name_of e]) e)"
    from "2.IH" [OF e m] show "length p \<le> length q" by simp
  qed
qed

lemma glob_parts_length:
  "q \<in> set (glob_parts parts (p, node)) \<Longrightarrow>
   length p + length (filter (\<lambda>part. part \<noteq> ''**'') parts) \<le> length q"
proof (induction parts arbitrary: p node q)
  case Nil
  then show ?case by simp
next
  case (Cons part parts)
  show ?case
  proof (cases "part = ''**''")
    case True
    with Cons.prems obtain p' n' where
      d: "(p', n') \<in> set (recursive_dirs p node)" and q: "q \<in> set (glob_parts parts (p', n'))"
      by auto
    from Cons.IH [OF q] recursive_dirs_length [OF d] True show ?thesis by simp
  next
    case False
    with Cons.prems obtain e where
      q: "q \<in> set (glob_parts parts (p @ [name_of e], e))"
      by auto
    from Cons.IH [OF q] False show ?thesis by simp
  qed
qed

lemma recursive_patterns:
  "split (CHR ''/'') ''**/*/*.py'' = [''**'', ''*'', ''*.py'']"
  "split (CHR ''/'') ''**/*/*.js'' = [''**'', ''*'', ''*.js'']"
  "split (CHR ''/'') ''**/*/*.ts'' = [''**'', ''*'', ''*.ts'']"
  "split (CHR ''/'') ''**/*/*.jsx'' = [''**'', ''*'', ''*.jsx'']"
  "split (CHR ''/'') ''**/*/*.tsx'' = [''**'', ''*'', ''*.tsx'']"
  by code_simp+

lemma recursive_scan_skips_directory_entries:
  assumes "q \<in> set (scanned_paths fsys dir True)"
  shows "length dir + 2 \<le> length q"
proof -
  from assms obtain ext node where
    e: "ext \<in> {''*.py'', ''*.js'', ''*.ts'', ''*.jsx'', ''*.tsx''}"
    and q: "q \<in> set (glob_parts [''**'', ''*'', ext] (dir, node))"
    by (auto simp: scanned_paths_def glob_def Let_def recursive_patterns
             split: option.splits simp del: glob_parts.simps)
  from e have "ext \<noteq> ''**''" by auto
  with glob_parts_length [OF q] show ?thesis by simp
qed

section \<open>The claims\<close>

text \<open>
  Claim C1 (scenario A): a file that assigns an f-string to \<open>query\<close> and then calls
  \<open>cursor.execute(query)\<close> is claimed to give exactly one finding, a CRITICAL
  "SQL Injection" with CWE-89. The scan of that file gives exactly one finding, and it is
  the LOW "Format String Injection" (CWE-134) of the f-string; no "SQL Injection" is
  reported, since the first argument of the call is a name.
\<close>

theorem scenario_a_reports_no_sql_injection:
  "map_sum id (map (\<lambda>f. (vulnerability_type f, severity f, owasp_category f, cwe_id f)) \<circ> fst)
     (analyze_python (parser_of [(scenario_a_source, scenario_a_tree)]) ''vulnerable.py''
        scenario_a_source)
   = Inr [(''Format String Injection'', LOW, A03_INJECTION, Some ''CWE-134'')]"
  by code_simp

text \<open>
  Claim C2, as amended: for a Python file whose text does not parse (\<open>ast.parse\<close> raises
  \<open>SyntaxError\<close>), the scan of the file returns the empty list of findings and the default
  metrics; the checks on the raw text are not run.
\<close>

theorem parse_failure_gives_empty_result:
  assumes "exists_path fsys p" and "suffix p = ''.py''"
    and "read_text fsys p = Inr source_code" and "parse source_code = Inl SyntaxError"
  shows "scan_outcome parse fsys p = Inr ([], CodeMetrics0)"
  using assms by (simp add: scan_outcome_def scan_file_def analyze_python_def)

text \<open>
  A witness for C2: the file \<open>pkg/broken.py\<close> of the sample directory.
\<close>

theorem parse_failure_gives_empty_result_witness:
  "exists_path sample_fs [''pkg'', ''broken.py''] \<and> suffix [''pkg'', ''broken.py''] = ''.py''
   \<and> read_text sample_fs [''pkg'', ''broken.py''] = Inr broken_source
   \<and> sample_parser broken_source = Inl SyntaxError
   \<and> scan_outcome sample_parser sample_fs [''pkg'', ''broken.py''] = Inr ([], CodeMetrics0)"
proof -
  have h1: "exists_path sample_fs [''pkg'', ''broken.py'']" by code_simp
  have h2: "suffix [''pkg'', ''broken.py''] = ''.py''" by code_simp
  have h3: "read_text sample_fs [''pkg'', ''broken.py''] = Inr broken_source" by code_simp
  have h4: "sample_parser broken_source = Inl SyntaxError" by code_simp
  from parse_failure_gives_empty_result
         [where parse = sample_parser and source_code = broken_source, OF h1 h2 h3 h4]
       h1 h2 h3 h4
  show ?thesis by blast
qed

text \<open>
  A counterexample to C2 as stated: \<open>pkg/broken.py\<close> does not parse and holds a hardcoded
  API key on its first line; its scan does not return the findings of the checks on the
  raw text.
\<close>

theorem parse_failure_counterexample:
  "map_sum id fst (scan_outcome sample_parser sample_fs [''pkg'', ''broken.py''])
   \<noteq> Inr (check_hardcoded_secrets broken_source ''pkg/broken.py''
           @ check_weak_crypto broken_source ''pkg/broken.py''
           @ check_logging_issues broken_source ''pkg/broken.py'')"
proof -
  have l: "map_sum id fst (scan_outcome sample_parser sample_fs [''pkg'', ''broken.py''])
             = Inr []"
    by code_simp
  have r: "check_hardcoded_secrets broken_source ''pkg/broken.py'' \<noteq> []"
    by code_simp
  from l r show ?thesis by simp
qed

text \<open>
  Claim C3 (scenario D): a file with \<open>hashlib.md5(...)\<close> and \<open>hashlib.sha1(...)\<close> on two
  lines is claimed to give exactly two weak-crypto findings. The scan of that file gives no
  finding at all: the algorithm names are looked for in upper case only.
\<close>

theorem scenario_d_reports_no_weak_crypto:
  "map_sum id fst
     (analyze_python (parser_of [(scenario_d_source, scenario_d_tree)]) ''crypto.py''
        scenario_d_source)
   = Inr []"
  by code_simp




text \<open>
  Claim C5: a recursive directory scan is claimed to enumerate the supported files at every
  depth, those directly in the directory included. In a directory that holds two Python
  files and nothing else, the recursive scan enumerates no file and reports
  \<open>files_scanned = 0\<close>, while the non-recursive scan enumerates both.
\<close>

theorem files_in_the_root_are_not_scanned:
  "scanned_paths flat_fs [] True = []
   \<and> map_sum id (files_scanned \<circ> fst)
        (scan_directory sample_parser ''now'' flat_fs new_guardian [] True) = Inr 0
   \<and> is_file flat_fs [''file0.py''] \<and> suffix [''file0.py''] = ''.py''
   \<and> scanned_paths flat_fs [] False = [[''file0.py''], [''file1.py'']]"
  by code_simp







text \<open>
  Claim C8: for every result of a directory scan, the values of
  \<open>severity_distribution\<close> sum to \<open>total_findings\<close>, which is the length of the list of
  findings.
\<close>

theorem severity_distribution_totals:
  assumes "scan_directory parse now fsys self dir recursive = Inr (r, g)"
  shows "sum_list (map snd (severity_distribution r)) = total_findings r
         \<and> total_findings r = int (length (result_findings r))"
proof -
  obtain self' n found agg where
    "scan_loop parse fsys self dir recursive = (self', n, found, agg)"
    by (cases "scan_loop parse fsys self dir recursive") auto
  from scan_directory_result [OF assms this] show ?thesis
    by (simp add: severity_dist_sum)
qed

text \<open>
  A witness for C8: the recursive scan of the sample directory, with its one finding.
\<close>

theorem severity_distribution_totals_witness:
  "\<exists>r g. scan_directory sample_parser ''now'' sample_fs new_guardian [] True = Inr (r, g)
     \<and> sum_list (map snd (severity_distribution r)) = total_findings r
     \<and> total_findings r = int (length (result_findings r))
     \<and> total_findings r = 1"
proof -
  have "\<not> isl (scan_directory sample_parser ''now'' sample_fs new_guardian [] True)"
    by code_simp
  then obtain r g where
    d: "scan_directory sample_parser ''now'' sample_fs new_guardian [] True = Inr (r, g)"
    using not_isl_Inr by fastforce
  have "total_findings
          (fst (projr (scan_directory sample_parser ''now'' sample_fs new_guardian [] True))) = 1"
    by code_simp
  with d have t: "total_findings r = 1" by simp
  from severity_distribution_totals [OF d] d t show ?thesis by blast
qed

text \<open>
  Claim C9 (scenario B): the line \<open>API_KEY = "sk-1234567890abcdef"\<close> is claimed to give a
  "Hardcoded Secret" finding (HIGH, CWE-798) whose snippet does not hold the whole secret.
  The finding is there, and its snippet is the whole line followed by three dots: the line
  is shorter than the 50 characters kept, so the snippet holds the whole secret.
\<close>

theorem scenario_b_snippet_holds_the_secret:
  "map (\<lambda>f. (line_number f, vulnerability_type f, severity f, cwe_id f, code_snippet f))
     (check_hardcoded_secrets scenario_b_source ''secrets.py'')
   = [(1, ''Hardcoded Secret'', HIGH, Some ''CWE-798'', scenario_b_source @ ''...'')]
   \<and> contains ''sk-1234567890abcdef'' (scenario_b_source @ ''...'')"
  by code_simp

text \<open>
  Claim C10: scanning a path that does not exist raises \<open>FileNotFoundError\<close>; scanning an
  existing file of an unsupported type returns no finding and the default metrics, raises
  nothing and leaves the guardian as it was.
\<close>

theorem scan_file_missing_or_unsupported:
  "(\<not> exists_path fsys p \<longrightarrow>
      scan_file parse fsys self p = Inl (FileNotFoundError (''File not found: '' @ str_path p)))
   \<and> (exists_path fsys p \<and> suffix p \<notin> set [''.py'', ''.js'', ''.ts'', ''.jsx'', ''.tsx'']
        \<longrightarrow> scan_file parse fsys self p = Inr (([], CodeMetrics0), self))"
  by (simp add: scan_file_def)

text \<open>
  A witness for C10: a missing path and the text file of the sample directory.
\<close>

theorem scan_file_missing_or_unsupported_witness:
  "\<not> exists_path sample_fs [''missing.py'']
   \<and> scan_file sample_parser sample_fs new_guardian [''missing.py'']
       = Inl (FileNotFoundError (''File not found: '' @ str_path [''missing.py'']))
   \<and> exists_path sample_fs [''notes.txt'']
   \<and> suffix [''notes.txt''] \<notin> set [''.py'', ''.js'', ''.ts'', ''.jsx'', ''.tsx'']
   \<and> scan_file sample_parser sample_fs new_guardian [''notes.txt'']
       = Inr (([], CodeMetrics0), new_guardian)"
proof -
  have h1: "\<not> exists_path sample_fs [''missing.py'']" by code_simp
  have h2: "exists_path sample_fs [''notes.txt'']" by code_simp
  have h3: "suffix [''notes.txt''] \<notin> set [''.py'', ''.js'', ''.ts'', ''.jsx'', ''.tsx'']"
    by code_simp
  from h1 h2 h3
    scan_file_missing_or_unsupported [of sample_fs "[''missing.py'']" sample_parser new_guardian]
    scan_file_missing_or_unsupported [of sample_fs "[''notes.txt'']" sample_parser new_guardian]
  show ?thesis by blast
qed

end
